theory Spec2Isabelle
  imports Complex_Main "HOL-Library.Word"
begin

section \<open>Scalars of the C++ source\<close>

text \<open>
  \<^verbatim>\<open>int\<close> is a 32-bit two's complement word, read with \<open>sint\<close>. A \<^verbatim>\<open>float\<close> is
  either finite, and then a rational number, or one of the three special values. Every
  IEEE single is a value of \<open>cfloat\<close>, so a statement proved for all \<open>cfloat\<close> holds for all
  floats. The literal \<^verbatim>\<open>1.0\<close> is \<open>Finite 1\<close>.
\<close>

type_synonym cint = "32 word"
type_synonym byte = "8 word"
type_synonym bytes = "byte list"

datatype cfloat = Finite rat | PosInf | NegInf | NaN

text \<open>\<^verbatim>\<open>ceilf\<close> of \<^verbatim>\<open><cmath>\<close>: exact on finite values, the identity on the others.\<close>

definition ceilf :: "cfloat \<Rightarrow> cfloat" where
  "ceilf x = (case x of Finite q \<Rightarrow> Finite (of_int \<lceil>q\<rceil>) | PosInf \<Rightarrow> PosInf
                | NegInf \<Rightarrow> NegInf | NaN \<Rightarrow> NaN)"

definition toward_zero :: "rat \<Rightarrow> int" where
  "toward_zero q = (if 0 \<le> q then \<lfloor>q\<rfloor> else \<lceil>q\<rceil>)"

text \<open>
  The conversion \<^verbatim>\<open>int(x)\<close> of a float: the fractional part is dropped. When the result
  does not fit \<^verbatim>\<open>int\<close> (also for an infinity or a NaN) the language defines no result;
  the value the platform then delivers is the parameter \<open>other\<close>. Whatever it is,
  it is an \<^verbatim>\<open>int\<close>.
\<close>

definition int_of_float :: "(cfloat \<Rightarrow> cint) \<Rightarrow> cfloat \<Rightarrow> cint" where
  "int_of_float other x =
     (case x of
        Finite q \<Rightarrow>
          if - (2 ^ 31) \<le> toward_zero q \<and> toward_zero q < 2 ^ 31
          then word_of_int (toward_zero q) else other x
      | PosInf \<Rightarrow> other x | NegInf \<Rightarrow> other x | NaN \<Rightarrow> other x)"

section \<open>The device: buffers, handles and the calls made on collaborators\<close>

type_synonym addr = nat

datatype stage = ImageModelStage | FlowPropagatorStage | FlowUpdateStage | FlowSmootherStage

text \<open>
  The calls of the filter on its collaborators that change device memory or the timer,
  and what it prints on standard output, in the order they are made.
\<close>

datatype call =
    StartTiming
  | StopTiming
  | StageCompute stage
  | Upload addr
  | CopyFrom addr addr
  | Clear addr
  | Print string

text \<open>
  Device memory maps the address of an allocation to its bytes; \<open>brk\<close> is the first
  address not yet allocated. What an allocation holds before it is written is whatever
  \<open>mem\<close> holds there: nothing is promised about it. Allocations are not released.
\<close>

record device =
  mem :: "addr \<Rightarrow> bytes"
  brk :: addr
  calls :: "call list"

text \<open>
  A \<^verbatim>\<open>GPUImage\<close> is a handle: the shape and the address of the device allocation.
  Copying the handle (as the getters of the stages do, returning by value) copies the
  address, so both copies name the same bytes.
\<close>

record GPUImage =
  g_height :: cint
  g_width :: cint
  g_depth :: cint
  g_itemSize :: cint
  g_ptr :: addr

text \<open>The host image \<^verbatim>\<open>flowfilter::image_t\<close>.\<close>

record image_t =
  i_height :: cint
  i_width :: cint
  i_depth :: cint
  i_itemSize :: cint
  i_data :: bytes

datatype dimension = Height | Width

text \<open>
  The source throws a plain \<^verbatim>\<open>std::exception\<close> after printing which dimension is
  not positive and its value; \<open>ConstructionError\<close> keeps both. \<open>ShapeMismatch\<close> is the
  failure of a host transfer.
\<close>

datatype error = ConstructionError dimension cint | ShapeMismatch

definition logCall :: "call \<Rightarrow> device \<Rightarrow> device" where
  "logCall c d = d\<lparr>calls := calls d @ [c]\<rparr>"

definition readBuf :: "GPUImage \<Rightarrow> device \<Rightarrow> bytes" where
  "readBuf g d = mem d (g_ptr g)"

definition writeBuf :: "GPUImage \<Rightarrow> bytes \<Rightarrow> device \<Rightarrow> device" where
  "writeBuf g b d = d\<lparr>mem := (mem d)(g_ptr g := b)\<rparr>"

definition byteSize :: "GPUImage \<Rightarrow> nat" where
  "byteSize g = nat (sint (g_height g)) * nat (sint (g_width g))
                * nat (sint (g_depth g)) * nat (sint (g_itemSize g))"

text \<open>
  Modelled from the spec: the buffer primitive \<^verbatim>\<open>GPUImage\<close> (constructor, \<^verbatim>\<open>upload\<close>,
  \<^verbatim>\<open>download\<close>, \<^verbatim>\<open>copyFrom\<close>, \<^verbatim>\<open>clear\<close>) is not part of the source file. The spec
  describes a shape-tagged block of device memory with host-to-device upload,
  device-to-host download, device-to-device copy and zero-fill, where a host transfer
  fails with a shape mismatch when the host image's dimensions disagree with the
  buffer's. Row padding is left out, and the device itself never fails.
\<close>

definition GPUImage_new :: "cint \<Rightarrow> cint \<Rightarrow> cint \<Rightarrow> cint \<Rightarrow> device \<Rightarrow> GPUImage \<times> device" where
  "GPUImage_new h w dep isz d =
     (\<lparr>g_height = h, g_width = w, g_depth = dep, g_itemSize = isz, g_ptr = brk d\<rparr>,
      d\<lparr>brk := Suc (brk d)\<rparr>)"

definition compareShape :: "GPUImage \<Rightarrow> image_t \<Rightarrow> bool" where
  "compareShape g img \<longleftrightarrow>
     g_height g = i_height img \<and> g_width g = i_width img
     \<and> g_depth g = i_depth img \<and> g_itemSize g = i_itemSize img"

definition upload :: "image_t \<Rightarrow> GPUImage \<Rightarrow> device \<Rightarrow> error option \<times> device" where
  "upload img g d =
     (if compareShape g img
      then (None, logCall (Upload (g_ptr g)) (writeBuf g (i_data img) d))
      else (Some ShapeMismatch, d))"

definition download :: "GPUImage \<Rightarrow> image_t \<Rightarrow> device \<Rightarrow> error + image_t" where
  "download g img d =
     (if compareShape g img then Inr (img\<lparr>i_data := readBuf g d\<rparr>) else Inl ShapeMismatch)"

definition copyFrom :: "GPUImage \<Rightarrow> GPUImage \<Rightarrow> device \<Rightarrow> device" where
  "copyFrom dst src d = logCall (CopyFrom (g_ptr dst) (g_ptr src)) (writeBuf dst (readBuf src d) d)"

definition clear :: "GPUImage \<Rightarrow> device \<Rightarrow> device" where
  "clear g d = logCall (Clear (g_ptr g)) (writeBuf g (replicate (byteSize g) 0) d)"

section \<open>The four stages\<close>

text \<open>
  Modelled from the spec: the classes \<^verbatim>\<open>ImageModel\<close>, \<^verbatim>\<open>FlowPropagator\<close>,
  \<^verbatim>\<open>FlowUpdate\<close> and \<^verbatim>\<open>FlowSmoother\<close> are not part of the source file. Per the spec
  each stage holds handles to the buffers it consumes, allocates the buffers it
  produces, keeps its scalar parameters, and its \<^verbatim>\<open>compute()\<close> reads the consumed
  buffers and writes the produced ones. The numerical kernels are parameters
  (\<open>env\<close>): nothing is assumed about them.
\<close>

record env =
  imageModelKernel :: "bytes \<Rightarrow> bytes \<times> bytes"
  propagatorKernel :: "cint \<Rightarrow> bytes \<Rightarrow> bytes"
  updateKernel :: "cfloat \<Rightarrow> cfloat \<Rightarrow> bytes \<Rightarrow> bytes \<Rightarrow> bytes \<Rightarrow> bytes \<Rightarrow> bytes \<times> bytes"
  smootherKernel :: "cint \<Rightarrow> bytes \<Rightarrow> bytes"
  intOutOfRange :: "cfloat \<Rightarrow> cint"

record ImageModel =
  im_inputImage :: GPUImage
  im_imageConstant :: GPUImage
  im_imageGradient :: GPUImage

record FlowPropagator =
  pr_inputFlow :: GPUImage
  pr_propagatedFlow :: GPUImage
  pr_iterations :: cint

record FlowUpdate =
  up_inputFlow :: GPUImage
  up_inputImage :: GPUImage
  up_inputImageGradient :: GPUImage
  up_updatedFlow :: GPUImage
  up_updatedImage :: GPUImage
  up_gamma :: cfloat
  up_maxflow :: cfloat

record FlowSmoother =
  sm_inputFlow :: GPUImage
  sm_smoothedFlow :: GPUImage
  sm_iterations :: cint

text \<open>
  Modelled from the spec: the constructors of the stages. Each keeps the handles it is
  given and allocates the buffers the stage produces, with the height and width of
  its input: the image constant (one float per pixel) and the image gradient (two), the
  updated flow (two) and the updated image (one), the smoothed flow (two), the
  propagated flow (two).
\<close>

definition ImageModel_new :: "GPUImage \<Rightarrow> device \<Rightarrow> ImageModel \<times> device" where
  "ImageModel_new inputImage d =
     (let (c, d1) = GPUImage_new (g_height inputImage) (g_width inputImage) 1 4 d;
          (g, d2) = GPUImage_new (g_height inputImage) (g_width inputImage) 2 4 d1
      in (\<lparr>im_inputImage = inputImage, im_imageConstant = c, im_imageGradient = g\<rparr>, d2))"

definition FlowUpdate_new ::
  "GPUImage \<Rightarrow> GPUImage \<Rightarrow> GPUImage \<Rightarrow> cfloat \<Rightarrow> cfloat \<Rightarrow> device \<Rightarrow> FlowUpdate \<times> device" where
  "FlowUpdate_new inputFlow inputImage inputImageGradient gamma maxflow d =
     (let (uf, d1) = GPUImage_new (g_height inputFlow) (g_width inputFlow) 2 4 d;
          (ui, d2) = GPUImage_new (g_height inputFlow) (g_width inputFlow) 1 4 d1
      in (\<lparr>up_inputFlow = inputFlow, up_inputImage = inputImage,
           up_inputImageGradient = inputImageGradient,
           up_updatedFlow = uf, up_updatedImage = ui,
           up_gamma = gamma, up_maxflow = maxflow\<rparr>, d2))"

definition FlowSmoother_new :: "GPUImage \<Rightarrow> cint \<Rightarrow> device \<Rightarrow> FlowSmoother \<times> device" where
  "FlowSmoother_new inputFlow iterations d =
     (let (sf, d1) = GPUImage_new (g_height inputFlow) (g_width inputFlow) 2 4 d
      in (\<lparr>sm_inputFlow = inputFlow, sm_smoothedFlow = sf, sm_iterations = iterations\<rparr>, d1))"

definition FlowPropagator_new :: "GPUImage \<Rightarrow> cint \<Rightarrow> device \<Rightarrow> FlowPropagator \<times> device" where
  "FlowPropagator_new inputFlow iterations d =
     (let (pf, d1) = GPUImage_new (g_height inputFlow) (g_width inputFlow) 2 4 d
      in (\<lparr>pr_inputFlow = inputFlow, pr_propagatedFlow = pf, pr_iterations = iterations\<rparr>, d1))"

text \<open>
  Modelled from the spec: \<^verbatim>\<open>compute()\<close> of each stage. It reads the buffers the stage
  consumes, applies the kernel and writes the buffers the stage produces; the update
  stage also reads the updated image of the previous cycle.
\<close>

definition ImageModel_compute :: "env \<Rightarrow> ImageModel \<Rightarrow> device \<Rightarrow> device" where
  "ImageModel_compute E im d =
     (let (c, g) = imageModelKernel E (readBuf (im_inputImage im) d)
      in logCall (StageCompute ImageModelStage)
           (writeBuf (im_imageGradient im) g (writeBuf (im_imageConstant im) c d)))"

definition FlowPropagator_compute :: "env \<Rightarrow> FlowPropagator \<Rightarrow> device \<Rightarrow> device" where
  "FlowPropagator_compute E pr d =
     logCall (StageCompute FlowPropagatorStage)
       (writeBuf (pr_propagatedFlow pr)
          (propagatorKernel E (pr_iterations pr) (readBuf (pr_inputFlow pr) d)) d)"

definition FlowUpdate_compute :: "env \<Rightarrow> FlowUpdate \<Rightarrow> device \<Rightarrow> device" where
  "FlowUpdate_compute E up d =
     (let (uf, ui) = updateKernel E (up_gamma up) (up_maxflow up)
                       (readBuf (up_inputFlow up) d) (readBuf (up_inputImage up) d)
                       (readBuf (up_inputImageGradient up) d) (readBuf (up_updatedImage up) d)
      in logCall (StageCompute FlowUpdateStage)
           (writeBuf (up_updatedImage up) ui (writeBuf (up_updatedFlow up) uf d)))"

definition FlowSmoother_compute :: "env \<Rightarrow> FlowSmoother \<Rightarrow> device \<Rightarrow> device" where
  "FlowSmoother_compute E sm d =
     logCall (StageCompute FlowSmootherStage)
       (writeBuf (sm_smoothedFlow sm)
          (smootherKernel E (sm_iterations sm) (readBuf (sm_inputFlow sm) d)) d)"

text \<open>
  Modelled from the spec: the getters and setters of the stages, which are not part of
  the source file either. A getter returns the handle or the value the stage holds; a
  setter stores its argument and does nothing else (the spec calls the filter's own
  setters a pass-through to them).
\<close>

definition getImageConstant :: "ImageModel \<Rightarrow> GPUImage" where
  "getImageConstant im = im_imageConstant im"

definition getImageGradient :: "ImageModel \<Rightarrow> GPUImage" where
  "getImageGradient im = im_imageGradient im"

definition getUpdatedFlow :: "FlowUpdate \<Rightarrow> GPUImage" where
  "getUpdatedFlow up = up_updatedFlow up"

definition getUpdatedImage :: "FlowUpdate \<Rightarrow> GPUImage" where
  "getUpdatedImage up = up_updatedImage up"

definition setInputFlow :: "GPUImage \<Rightarrow> FlowUpdate \<Rightarrow> FlowUpdate" where
  "setInputFlow inputFlow up = up\<lparr>up_inputFlow := inputFlow\<rparr>"

definition getSmoothedFlow :: "FlowSmoother \<Rightarrow> GPUImage" where
  "getSmoothedFlow sm = sm_smoothedFlow sm"

definition getPropagatedFlow :: "FlowPropagator \<Rightarrow> GPUImage" where
  "getPropagatedFlow pr = pr_propagatedFlow pr"

definition FlowUpdate_getGamma :: "FlowUpdate \<Rightarrow> cfloat" where
  "FlowUpdate_getGamma up = up_gamma up"

definition FlowUpdate_setGamma :: "cfloat \<Rightarrow> FlowUpdate \<Rightarrow> FlowUpdate" where
  "FlowUpdate_setGamma gamma up = up\<lparr>up_gamma := gamma\<rparr>"

definition FlowUpdate_getMaxFlow :: "FlowUpdate \<Rightarrow> cfloat" where
  "FlowUpdate_getMaxFlow up = up_maxflow up"

definition FlowUpdate_setMaxFlow :: "cfloat \<Rightarrow> FlowUpdate \<Rightarrow> FlowUpdate" where
  "FlowUpdate_setMaxFlow maxflow up = up\<lparr>up_maxflow := maxflow\<rparr>"

definition FlowPropagator_getIterations :: "FlowPropagator \<Rightarrow> cint" where
  "FlowPropagator_getIterations pr = pr_iterations pr"

definition FlowPropagator_setIterations :: "cint \<Rightarrow> FlowPropagator \<Rightarrow> FlowPropagator" where
  "FlowPropagator_setIterations N pr = pr\<lparr>pr_iterations := N\<rparr>"

definition FlowSmoother_getIterations :: "FlowSmoother \<Rightarrow> cint" where
  "FlowSmoother_getIterations sm = sm_iterations sm"

definition FlowSmoother_setIterations :: "cint \<Rightarrow> FlowSmoother \<Rightarrow> FlowSmoother" where
  "FlowSmoother_setIterations N sm = sm\<lparr>sm_iterations := N\<rparr>"

section \<open>The filter\<close>

text \<open>The members of \<^verbatim>\<open>FlowFilter\<close>; \<open>f_x\<close> is the member \<^verbatim>\<open>__x\<close>.\<close>

record FlowFilter =
  f_height :: cint
  f_width :: cint
  f_configured :: bool
  f_firstLoad :: bool
  f_inputImage :: GPUImage
  f_imageModel :: ImageModel
  f_propagator :: FlowPropagator
  f_update :: FlowUpdate
  f_smoother :: FlowSmoother

text \<open>
  Modelled from the spec: the base class \<^verbatim>\<open>Stage\<close> with \<^verbatim>\<open>startTiming()\<close> and
  \<^verbatim>\<open>stopTiming()\<close> is not part of the source file. The spec calls them timing
  instrumentation around the sequence; each is a mark in the record of calls.
\<close>

definition startTiming :: "device \<Rightarrow> device" where
  "startTiming d = logCall StartTiming d"

definition stopTiming :: "device \<Rightarrow> device" where
  "stopTiming d = logCall StopTiming d"

text \<open>
  \<^verbatim>\<open>FlowFilter::configure()\<close>: allocate and wire the stages, rebind the input of the
  update stage from the dummy flow to the propagator's output, clear four buffers, set
  both flags.
\<close>

definition configure :: "FlowFilter \<Rightarrow> device \<Rightarrow> FlowFilter \<times> device" where
  "configure f d =
     (let (inputImage, d1) = GPUImage_new (f_height f) (f_width f) 1 1 d;
          (imageModel, d2) = ImageModel_new inputImage d1;
          (dummyFlow, d3) = GPUImage_new (f_height f) (f_width f) 2 4 d2;
          (update0, d4) = FlowUpdate_new dummyFlow (getImageConstant imageModel)
                            (getImageGradient imageModel) (Finite 1) (Finite 1) d3;
          (smoother, d5) = FlowSmoother_new (getUpdatedFlow update0) 1 d4;
          (propagator, d6) = FlowPropagator_new (getSmoothedFlow smoother) 1 d5;
          update = setInputFlow (getPropagatedFlow propagator) update0;
          d7 = clear (getPropagatedFlow propagator) d6;
          d8 = clear (getUpdatedFlow update) d7;
          d9 = clear (getUpdatedImage update) d8;
          d10 = clear (getSmoothedFlow smoother) d9
      in (f\<lparr>f_inputImage := inputImage, f_imageModel := imageModel,
            f_update := update, f_smoother := smoother, f_propagator := propagator,
            f_configured := True, f_firstLoad := True\<rparr>, d10))"

text \<open>\<^verbatim>\<open>FlowFilter::compute()\<close>.\<close>

definition compute :: "env \<Rightarrow> FlowFilter \<Rightarrow> device \<Rightarrow> FlowFilter \<times> device" where
  "compute E f d =
     (let d1 = startTiming d;
          d2 = ImageModel_compute E (f_imageModel f) d1;
          d3 = FlowPropagator_compute E (f_propagator f) d2;
          d4 = FlowUpdate_compute E (f_update f) d3;
          d5 = FlowSmoother_compute E (f_smoother f) d4;
          d6 = stopTiming d5
      in (f, d6))"

text \<open>
  \<^verbatim>\<open>FlowFilter::loadImage()\<close>. The first component of the result is the exception
  thrown, if any; the other two are the object and the device when the call ends.
\<close>

definition loadImage ::
  "env \<Rightarrow> image_t \<Rightarrow> FlowFilter \<Rightarrow> device \<Rightarrow> error option \<times> FlowFilter \<times> device" where
  "loadImage E img f d =
     (case upload img (f_inputImage f) d of
        (Some e, d1) \<Rightarrow> (Some e, f, d1)
      | (None, d1) \<Rightarrow>
          if f_firstLoad f then
            (let d2 = logCall (Print ''FlowFilter::loadImage(): fisrt load'') d1;
                 d3 = ImageModel_compute E (f_imageModel f) d2;
                 imConstant = getImageConstant (f_imageModel f);
                 d4 = copyFrom (getUpdatedImage (f_update f)) imConstant d3
             in (None, f\<lparr>f_firstLoad := False\<rparr>, d4))
          else (None, f, d1))"

definition downloadFlow :: "FlowFilter \<Rightarrow> image_t \<Rightarrow> device \<Rightarrow> error + image_t" where
  "downloadFlow f flow d = download (getSmoothedFlow (f_smoother f)) flow d"

definition downloadImage :: "FlowFilter \<Rightarrow> image_t \<Rightarrow> device \<Rightarrow> error + image_t" where
  "downloadImage f img d = download (getUpdatedImage (f_update f)) img d"

definition getGamma :: "FlowFilter \<Rightarrow> cfloat" where
  "getGamma f = FlowUpdate_getGamma (f_update f)"

definition setGamma :: "cfloat \<Rightarrow> FlowFilter \<Rightarrow> FlowFilter" where
  "setGamma gamma f = f\<lparr>f_update := FlowUpdate_setGamma gamma (f_update f)\<rparr>"

definition getMaxFlow :: "FlowFilter \<Rightarrow> cfloat" where
  "getMaxFlow f = FlowUpdate_getMaxFlow (f_update f)"

definition setMaxFlow :: "env \<Rightarrow> cfloat \<Rightarrow> FlowFilter \<Rightarrow> FlowFilter" where
  "setMaxFlow E maxflow f =
     (let f1 = f\<lparr>f_update := FlowUpdate_setMaxFlow maxflow (f_update f)\<rparr>
      in f1\<lparr>f_propagator :=
              FlowPropagator_setIterations (int_of_float (intOutOfRange E) (ceilf maxflow))
                (f_propagator f1)\<rparr>)"

definition getSmoothIterations :: "FlowFilter \<Rightarrow> cint" where
  "getSmoothIterations f = FlowSmoother_getIterations (f_smoother f)"

definition setSmoothIterations :: "cint \<Rightarrow> FlowFilter \<Rightarrow> FlowFilter" where
  "setSmoothIterations N f = f\<lparr>f_smoother := FlowSmoother_setIterations N (f_smoother f)\<rparr>"

definition getPropagationIterations :: "FlowFilter \<Rightarrow> cint" where
  "getPropagationIterations f = FlowPropagator_getIterations (f_propagator f)"

definition height :: "FlowFilter \<Rightarrow> cint" where
  "height f = f_height f"

definition width :: "FlowFilter \<Rightarrow> cint" where
  "width f = f_width f"

definition getFlow :: "FlowFilter \<Rightarrow> GPUImage" where
  "getFlow f = getUpdatedFlow (f_update f)"

text \<open>
  The constructors. \<open>raw\<close> is the object as the default constructors of its members
  leave it: the source assigns \<^verbatim>\<open>__height\<close>, \<^verbatim>\<open>__width\<close> and \<^verbatim>\<open>__configured\<close> and
  nothing else, so every other member, \<^verbatim>\<open>__firstLoad\<close> included, is what \<open>raw\<close> holds.
  A constructor that throws yields no object.
\<close>

definition FlowFilter_default :: "FlowFilter \<Rightarrow> device \<Rightarrow> FlowFilter \<times> device" where
  "FlowFilter_default raw d = (raw\<lparr>f_height := 0, f_width := 0, f_configured := False\<rparr>, d)"

definition FlowFilter_new ::
  "env \<Rightarrow> FlowFilter \<Rightarrow> cint \<Rightarrow> cint \<Rightarrow> cint \<Rightarrow> cfloat \<Rightarrow> cfloat \<Rightarrow> device
     \<Rightarrow> (error + FlowFilter) \<times> device" where
  "FlowFilter_new E raw h w smoothIterations maxflow gamma d =
     (if sint h \<le> 0 then (Inl (ConstructionError Height h), d)
      else if sint w \<le> 0 then (Inl (ConstructionError Width w), d)
      else
        (let f0 = raw\<lparr>f_height := h, f_width := w, f_configured := False\<rparr>;
             (f1, d1) = configure f0 d;
             f2 = setGamma gamma f1;
             f3 = setMaxFlow E maxflow f2;
             f4 = setSmoothIterations smoothIterations f3
         in (Inr f4, d1)))"

definition FlowFilter_hw ::
  "env \<Rightarrow> FlowFilter \<Rightarrow> cint \<Rightarrow> cint \<Rightarrow> device \<Rightarrow> (error + FlowFilter) \<times> device" where
  "FlowFilter_hw E raw h w d = FlowFilter_new E raw h w 1 (Finite 1) (Finite 1) d"

section \<open>The wiring of a configured filter\<close>

text \<open>
  What \<open>configure\<close> establishes and no operation of the filter changes: the input
  image has the filter's height and width, every stage reads the buffer its
  predecessor writes (the smoothed flow feeds the propagator, which closes the loop),
  and the seven buffers are seven allocations.
\<close>

definition buffers :: "FlowFilter \<Rightarrow> GPUImage list" where
  "buffers f =
     [f_inputImage f,
      im_imageConstant (f_imageModel f), im_imageGradient (f_imageModel f),
      pr_propagatedFlow (f_propagator f),
      up_updatedFlow (f_update f), up_updatedImage (f_update f),
      sm_smoothedFlow (f_smoother f)]"

definition wired :: "FlowFilter \<Rightarrow> bool" where
  "wired f \<longleftrightarrow>
     g_height (f_inputImage f) = f_height f \<and> g_width (f_inputImage f) = f_width f
     \<and> im_inputImage (f_imageModel f) = f_inputImage f
     \<and> up_inputImage (f_update f) = im_imageConstant (f_imageModel f)
     \<and> up_inputImageGradient (f_update f) = im_imageGradient (f_imageModel f)
     \<and> up_inputFlow (f_update f) = pr_propagatedFlow (f_propagator f)
     \<and> sm_inputFlow (f_smoother f) = up_updatedFlow (f_update f)
     \<and> pr_inputFlow (f_propagator f) = sm_smoothedFlow (f_smoother f)
     \<and> distinct (map g_ptr (buffers f))"

section \<open>Sequences of calls on one filter\<close>

text \<open>
  The operations a caller has on a constructed filter. A download hands its result to
  the caller and leaves the filter and the device as they are. \<open>run\<close> makes the calls
  one after the other and collects what each threw; the caller goes on after an
  exception, so that a statement about every \<open>run\<close> covers the caller who stops as well.
\<close>

datatype op =
    LoadImage image_t
  | Compute
  | DownloadFlow image_t
  | DownloadImage image_t
  | SetGamma cfloat
  | SetMaxFlow cfloat
  | SetSmoothIterations cint

fun step :: "env \<Rightarrow> op \<Rightarrow> FlowFilter \<Rightarrow> device \<Rightarrow> error option \<times> FlowFilter \<times> device" where
  "step E (LoadImage img) f d = loadImage E img f d"
| "step E Compute f d = (None, compute E f d)"
| "step E (DownloadFlow flow) f d =
     (case downloadFlow f flow d of Inl e \<Rightarrow> (Some e, f, d) | Inr _ \<Rightarrow> (None, f, d))"
| "step E (DownloadImage img) f d =
     (case downloadImage f img d of Inl e \<Rightarrow> (Some e, f, d) | Inr _ \<Rightarrow> (None, f, d))"
| "step E (SetGamma gamma) f d = (None, setGamma gamma f, d)"
| "step E (SetMaxFlow maxflow) f d = (None, setMaxFlow E maxflow f, d)"
| "step E (SetSmoothIterations N) f d = (None, setSmoothIterations N f, d)"

fun run :: "env \<Rightarrow> op list \<Rightarrow> FlowFilter \<Rightarrow> device \<Rightarrow> error option list \<times> FlowFilter \<times> device" where
  "run E [] f d = ([], f, d)"
| "run E (x # xs) f d =
     (case step E x f d of
        (r, f1, d1) \<Rightarrow> (case run E xs f1 d1 of (rs, f2, d2) \<Rightarrow> (r # rs, f2, d2)))"

fun isCopyFrom :: "call \<Rightarrow> bool" where
  "isCopyFrom (CopyFrom dst src) = True"
| "isCopyFrom c = False"

definition seedings :: "device \<Rightarrow> nat" where
  "seedings d = length (filter isCopyFrom (calls d))"

section \<open>A concrete platform, device and object\<close>

text \<open>
  Used where a statement is checked at a concrete input: kernels that copy, a device
  whose memory holds junk, an object whose members are blank, the two's complement
  minimum as the result of an out-of-range conversion (what the x86 conversion
  instruction delivers), and the 2 by 2 filter the constructor builds from them.
\<close>

definition sampleEnv :: env where
  "sampleEnv =
     \<lparr>imageModelKernel = (\<lambda>b. (b, b @ b)),
      propagatorKernel = (\<lambda>n b. b),
      updateKernel = (\<lambda>gamma maxflow fl c g ui. (fl, c)),
      smootherKernel = (\<lambda>n b. b),
      intOutOfRange = (\<lambda>x. - (2 ^ 31))\<rparr>"

definition junkDevice :: device where
  "junkDevice = \<lparr>mem = (\<lambda>a. [255, 7]), brk = 0, calls = []\<rparr>"

definition blankImage :: GPUImage where
  "blankImage = \<lparr>g_height = 0, g_width = 0, g_depth = 0, g_itemSize = 0, g_ptr = 0\<rparr>"

definition rawFilter :: FlowFilter where
  "rawFilter =
     \<lparr>f_height = 0, f_width = 0, f_configured = False, f_firstLoad = False,
      f_inputImage = blankImage,
      f_imageModel = \<lparr>im_inputImage = blankImage, im_imageConstant = blankImage,
                       im_imageGradient = blankImage\<rparr>,
      f_propagator = \<lparr>pr_inputFlow = blankImage, pr_propagatedFlow = blankImage,
                       pr_iterations = 0\<rparr>,
      f_update = \<lparr>up_inputFlow = blankImage, up_inputImage = blankImage,
                   up_inputImageGradient = blankImage, up_updatedFlow = blankImage,
                   up_updatedImage = blankImage, up_gamma = NaN, up_maxflow = NaN\<rparr>,
      f_smoother = \<lparr>sm_inputFlow = blankImage, sm_smoothedFlow = blankImage,
                     sm_iterations = 0\<rparr>\<rparr>"

definition sampleFilter :: FlowFilter where
  "sampleFilter =
     (case fst (FlowFilter_new sampleEnv rawFilter 2 2 2 (Finite 4) (Finite (1 / 2)) junkDevice) of
        Inr f \<Rightarrow> f | Inl e \<Rightarrow> rawFilter)"

definition sampleDevice :: device where
  "sampleDevice =
     snd (FlowFilter_new sampleEnv rawFilter 2 2 2 (Finite 4) (Finite (1 / 2)) junkDevice)"

definition hostImage :: "cint \<Rightarrow> cint \<Rightarrow> cint \<Rightarrow> cint \<Rightarrow> bytes \<Rightarrow> image_t" where
  "hostImage h w dep isz b =
     \<lparr>i_height = h, i_width = w, i_depth = dep, i_itemSize = isz, i_data = b\<rparr>"

section \<open>Unfolding rules\<close>

lemmas accessor_defs =
  getGamma_def getMaxFlow_def getSmoothIterations_def getPropagationIterations_def
  height_def width_def getFlow_def
  FlowUpdate_getGamma_def FlowUpdate_getMaxFlow_def FlowPropagator_getIterations_def
  FlowSmoother_getIterations_def

lemmas setter_defs =
  setGamma_def setMaxFlow_def setSmoothIterations_def Let_def
  FlowUpdate_setGamma_def FlowUpdate_setMaxFlow_def FlowPropagator_setIterations_def
  FlowSmoother_setIterations_def

lemmas stage_getter_defs =
  getImageConstant_def getImageGradient_def getUpdatedFlow_def getUpdatedImage_def
  getSmoothedFlow_def getPropagatedFlow_def setInputFlow_def

lemmas alloc_defs =
  GPUImage_new_def ImageModel_new_def FlowUpdate_new_def FlowSmoother_new_def
  FlowPropagator_new_def

lemmas buffer_defs = clear_def copyFrom_def writeBuf_def readBuf_def logCall_def

lemmas compute_defs =
  compute_def startTiming_def stopTiming_def ImageModel_compute_def FlowPropagator_compute_def
  FlowUpdate_compute_def FlowSmoother_compute_def

section \<open>The wiring\<close>

lemma wiredD:
  assumes "wired f"
  shows "im_inputImage (f_imageModel f) = f_inputImage f"
    and "up_inputImage (f_update f) = im_imageConstant (f_imageModel f)"
    and "up_inputImageGradient (f_update f) = im_imageGradient (f_imageModel f)"
    and "up_inputFlow (f_update f) = pr_propagatedFlow (f_propagator f)"
    and "sm_inputFlow (f_smoother f) = up_updatedFlow (f_update f)"
    and "pr_inputFlow (f_propagator f) = sm_smoothedFlow (f_smoother f)"
    and "distinct (map g_ptr (buffers f))"
    and "g_height (f_inputImage f) = f_height f"
    and "g_width (f_inputImage f) = f_width f"
  using assms by (simp_all add: wired_def)

lemma wired_firstLoad: "wired (f\<lparr>f_firstLoad := b\<rparr>) = wired f"
  by (simp add: wired_def buffers_def)

section \<open>The scalar parameters\<close>

lemma setters_idempotent:
  "setGamma a (setGamma a f) = setGamma a f"
  "setMaxFlow E b (setMaxFlow E b f) = setMaxFlow E b f"
  "setSmoothIterations c (setSmoothIterations c f) = setSmoothIterations c f"
  by (simp_all add: setter_defs)

lemma setters_commute:
  "setGamma a (setMaxFlow E b f) = setMaxFlow E b (setGamma a f)"
  "setGamma a (setSmoothIterations c f) = setSmoothIterations c (setGamma a f)"
  "setMaxFlow E b (setSmoothIterations c f) = setSmoothIterations c (setMaxFlow E b f)"
  by (simp_all add: setter_defs)

lemma setters_wired:
  "wired (setGamma a f) = wired f"
  "wired (setMaxFlow E b f) = wired f"
  "wired (setSmoothIterations c f) = wired f"
  by (simp_all add: setter_defs wired_def buffers_def)

lemma setters_flags:
  "f_configured (setGamma a f) = f_configured f"
  "f_configured (setMaxFlow E b f) = f_configured f"
  "f_configured (setSmoothIterations c f) = f_configured f"
  "f_height (setGamma a f) = f_height f"
  "f_height (setMaxFlow E b f) = f_height f"
  "f_height (setSmoothIterations c f) = f_height f"
  "f_width (setGamma a f) = f_width f"
  "f_width (setMaxFlow E b f) = f_width f"
  "f_width (setSmoothIterations c f) = f_width f"
  "f_firstLoad (setGamma a f) = f_firstLoad f"
  "f_firstLoad (setMaxFlow E b f) = f_firstLoad f"
  "f_firstLoad (setSmoothIterations c f) = f_firstLoad f"
  by (simp_all add: setter_defs)

text \<open>
  C9: \<open>setGamma\<close> stores the value in the update stage and has no other effect: after
  \<open>setGamma g\<close>, \<open>getGamma\<close> returns \<open>g\<close>, and the maximum flow, both iteration counts,
  the height and the width are what they were, as are the flow handle, both flags and
  all buffers.
\<close>

theorem setGamma_frame:
  "getGamma (setGamma g f) = g
   \<and> getMaxFlow (setGamma g f) = getMaxFlow f
   \<and> getSmoothIterations (setGamma g f) = getSmoothIterations f
   \<and> getPropagationIterations (setGamma g f) = getPropagationIterations f
   \<and> height (setGamma g f) = height f
   \<and> width (setGamma g f) = width f
   \<and> getFlow (setGamma g f) = getFlow f
   \<and> f_configured (setGamma g f) = f_configured f
   \<and> f_firstLoad (setGamma g f) = f_firstLoad f
   \<and> buffers (setGamma g f) = buffers f"
  by (simp add: setter_defs accessor_defs stage_getter_defs buffers_def)

subsection \<open>The iteration count of the propagator\<close>

lemma toward_zero_of_int: "toward_zero (of_int n) = n"
  by (simp add: toward_zero_def)

lemma int_of_float_ceilf:
  assumes "- (2 ^ 31) \<le> \<lceil>q\<rceil>" and "\<lceil>q\<rceil> < 2 ^ 31"
  shows "sint (int_of_float other (ceilf (Finite q))) = \<lceil>q\<rceil>"
proof -
  have "int_of_float other (ceilf (Finite q)) = word_of_int \<lceil>q\<rceil>"
    using assms by (simp add: int_of_float_def ceilf_def toward_zero_of_int)
  moreover have "sint (word_of_int \<lceil>q\<rceil> :: cint) = \<lceil>q\<rceil>"
    using assms by (simp add: sint_sbintrunc' signed_take_bit_int_eq_self)
  ultimately show ?thesis by simp
qed

lemma step_keeps_propagation_iterations:
  assumes "\<forall>v. x \<noteq> SetMaxFlow v"
  shows "getPropagationIterations (fst (snd (step E x f d))) = getPropagationIterations f"
  using assms
  by (cases x)
     (auto simp: loadImage_def compute_def accessor_defs setter_defs
           split: prod.splits option.splits sum.splits if_splits)

text \<open>
  An \<^verbatim>\<open>int\<close> is below \<open>2 ^ 31\<close>, so no maximum flow of \<open>2 ^ 31\<close> or more has its ceiling
  as iteration count, whatever the platform does with the conversion.
\<close>

lemma propagation_iterations_below:
  "sint (getPropagationIterations (setMaxFlow E v f)) < 2 ^ 31"
  using sint_lt [of "getPropagationIterations (setMaxFlow E v f)"] by simp

text \<open>
  C4 (as stated): for every maximum flow \<open>v\<close>, after \<open>setMaxFlow v\<close> the propagation
  iteration count is the ceiling of \<open>v\<close>. It fails at \<open>v = 2 ^ 31\<close>, a value of
  \<^verbatim>\<open>float\<close> whose ceiling is no \<^verbatim>\<open>int\<close>.
\<close>

theorem setMaxFlow_ceil_counterexample:
  "sint (getPropagationIterations (setMaxFlow sampleEnv (Finite 2147483648) rawFilter))
     \<noteq> \<lceil>2147483648 :: rat\<rceil>"
  by code_simp

text \<open>
  C4 (amended): for every finite maximum flow \<open>q\<close> whose ceiling is an \<^verbatim>\<open>int\<close>, after
  \<open>setMaxFlow\<close> the propagation iteration count is the ceiling of \<open>q\<close> and \<open>getMaxFlow\<close>
  returns \<open>q\<close>. For every value the count is the conversion to \<^verbatim>\<open>int\<close> of \<^verbatim>\<open>ceilf\<close> of
  the maximum flow and depends on nothing else of the filter, and no other operation of
  the filter changes it.
\<close>

theorem setMaxFlow_iterations:
  assumes "- (2 ^ 31) \<le> \<lceil>q\<rceil>" and "\<lceil>q\<rceil> < 2 ^ 31"
  shows "sint (getPropagationIterations (setMaxFlow E (Finite q) f)) = \<lceil>q\<rceil>
   \<and> getMaxFlow (setMaxFlow E (Finite q) f) = Finite q
   \<and> (\<forall>v g. getPropagationIterations (setMaxFlow E v g)
                = int_of_float (intOutOfRange E) (ceilf v))
   \<and> (\<forall>x d. (\<forall>u. x \<noteq> SetMaxFlow u) \<longrightarrow>
         getPropagationIterations (fst (snd (step E x f d))) = getPropagationIterations f)"
proof (intro conjI allI impI)
  show "sint (getPropagationIterations (setMaxFlow E (Finite q) f)) = \<lceil>q\<rceil>"
    using int_of_float_ceilf [OF assms]
    by (simp add: setter_defs accessor_defs)
  show "getMaxFlow (setMaxFlow E (Finite q) f) = Finite q"
    by (simp add: setter_defs accessor_defs)
  show "getPropagationIterations (setMaxFlow E v g)
          = int_of_float (intOutOfRange E) (ceilf v)" for v g
    by (simp add: setter_defs accessor_defs)
  show "getPropagationIterations (fst (snd (step E x f d))) = getPropagationIterations f"
    if "\<forall>u. x \<noteq> SetMaxFlow u" for x d
    using that by (rule step_keeps_propagation_iterations)
qed

theorem setMaxFlow_iterations_witness:
  "- (2 ^ 31) \<le> \<lceil>7 / 2 :: rat\<rceil> \<and> \<lceil>7 / 2 :: rat\<rceil> < 2 ^ 31
   \<and> sint (getPropagationIterations (setMaxFlow sampleEnv (Finite (7 / 2)) rawFilter)) = 4
   \<and> getMaxFlow (setMaxFlow sampleEnv (Finite (7 / 2)) rawFilter) = Finite (7 / 2)
   \<and> getPropagationIterations
         (fst (snd (step sampleEnv (SetSmoothIterations 9) rawFilter junkDevice)))
       = getPropagationIterations rawFilter"
proof -
  have c: "\<lceil>7 / 2 :: rat\<rceil> = 4" by code_simp
  have lo: "- (2 ^ 31) \<le> \<lceil>7 / 2 :: rat\<rceil>" and hi: "\<lceil>7 / 2 :: rat\<rceil> < 2 ^ 31"
    by (simp_all add: c)
  note t = setMaxFlow_iterations [OF lo hi, of sampleEnv rawFilter]
  from t have a: "sint (getPropagationIterations
      (setMaxFlow sampleEnv (Finite (7 / 2)) rawFilter)) = \<lceil>7 / 2 :: rat\<rceil>"
    by (rule conjunct1)
  from t have b: "getMaxFlow (setMaxFlow sampleEnv (Finite (7 / 2)) rawFilter) = Finite (7 / 2)"
    by (rule conjunct2 [THEN conjunct1])
  from t have "\<forall>x d. (\<forall>u. x \<noteq> SetMaxFlow u) \<longrightarrow>
      getPropagationIterations (fst (snd (step sampleEnv x rawFilter d)))
        = getPropagationIterations rawFilter"
    by (rule conjunct2 [THEN conjunct2, THEN conjunct2])
  then have e: "getPropagationIterations
         (fst (snd (step sampleEnv (SetSmoothIterations 9) rawFilter junkDevice)))
       = getPropagationIterations rawFilter"
    by (simp del: step.simps)
  from lo hi a [unfolded c] b e show ?thesis by blast
qed

section \<open>Configuration and construction\<close>

lemma configure_flags:
  "f_configured (fst (configure f d))"
  "f_firstLoad (fst (configure f d))"
  "f_height (fst (configure f d)) = f_height f"
  "f_width (fst (configure f d)) = f_width f"
  by (simp_all add: configure_def alloc_defs Let_def split: prod.splits)

lemma configure_params:
  "getGamma (fst (configure f d)) = Finite 1"
  "getMaxFlow (fst (configure f d)) = Finite 1"
  "getSmoothIterations (fst (configure f d)) = 1"
  "getPropagationIterations (fst (configure f d)) = 1"
  by (simp_all add: configure_def alloc_defs Let_def accessor_defs stage_getter_defs
      split: prod.splits)

lemma configure_wired: "wired (fst (configure f d))"
  by (simp add: configure_def alloc_defs Let_def wired_def buffers_def stage_getter_defs
      split: prod.splits)

lemma configure_buffers:
  "map g_ptr (buffers (fst (configure f d)))
     = [brk d, brk d + 1, brk d + 2, brk d + 7, brk d + 4, brk d + 5, brk d + 6]"
  by (simp add: configure_def alloc_defs Let_def buffers_def stage_getter_defs
      split: prod.splits)

lemma configure_brk: "brk (snd (configure f d)) = brk d + 8"
  by (simp add: configure_def alloc_defs Let_def stage_getter_defs buffer_defs
      split: prod.splits)

lemma configure_handles:
  "f_inputImage (fst (configure f d)) =
     \<lparr>g_height = f_height f, g_width = f_width f, g_depth = 1, g_itemSize = 1, g_ptr = brk d\<rparr>"
  "im_imageConstant (f_imageModel (fst (configure f d))) =
     \<lparr>g_height = f_height f, g_width = f_width f, g_depth = 1, g_itemSize = 4, g_ptr = brk d + 1\<rparr>"
  "im_imageGradient (f_imageModel (fst (configure f d))) =
     \<lparr>g_height = f_height f, g_width = f_width f, g_depth = 2, g_itemSize = 4, g_ptr = brk d + 2\<rparr>"
  "up_updatedFlow (f_update (fst (configure f d))) =
     \<lparr>g_height = f_height f, g_width = f_width f, g_depth = 2, g_itemSize = 4, g_ptr = brk d + 4\<rparr>"
  "up_updatedImage (f_update (fst (configure f d))) =
     \<lparr>g_height = f_height f, g_width = f_width f, g_depth = 1, g_itemSize = 4, g_ptr = brk d + 5\<rparr>"
  "sm_smoothedFlow (f_smoother (fst (configure f d))) =
     \<lparr>g_height = f_height f, g_width = f_width f, g_depth = 2, g_itemSize = 4, g_ptr = brk d + 6\<rparr>"
  "pr_propagatedFlow (f_propagator (fst (configure f d))) =
     \<lparr>g_height = f_height f, g_width = f_width f, g_depth = 2, g_itemSize = 4, g_ptr = brk d + 7\<rparr>"
  by (simp_all add: configure_def alloc_defs Let_def stage_getter_defs split: prod.splits)

lemma configure_calls:
  "calls (snd (configure f d)) =
     calls d @ [Clear (brk d + 7), Clear (brk d + 4), Clear (brk d + 5), Clear (brk d + 6)]"
  by (simp add: configure_def alloc_defs Let_def stage_getter_defs buffer_defs
      split: prod.splits)

lemma configure_zero:
  "readBuf (pr_propagatedFlow (f_propagator (fst (configure f d)))) (snd (configure f d))
     = replicate (byteSize (pr_propagatedFlow (f_propagator (fst (configure f d))))) 0"
  "readBuf (up_updatedFlow (f_update (fst (configure f d)))) (snd (configure f d))
     = replicate (byteSize (up_updatedFlow (f_update (fst (configure f d))))) 0"
  "readBuf (up_updatedImage (f_update (fst (configure f d)))) (snd (configure f d))
     = replicate (byteSize (up_updatedImage (f_update (fst (configure f d))))) 0"
  "readBuf (sm_smoothedFlow (f_smoother (fst (configure f d)))) (snd (configure f d))
     = replicate (byteSize (sm_smoothedFlow (f_smoother (fst (configure f d))))) 0"
  by (simp_all add: configure_def alloc_defs Let_def stage_getter_defs buffer_defs
      split: prod.splits)

lemma FlowFilter_new_ok:
  assumes "0 < sint h" and "0 < sint w"
  shows "FlowFilter_new E raw h w n v g d =
     (Inr (setSmoothIterations n (setMaxFlow E v (setGamma g
            (fst (configure (raw\<lparr>f_height := h, f_width := w, f_configured := False\<rparr>) d))))),
      snd (configure (raw\<lparr>f_height := h, f_width := w, f_configured := False\<rparr>) d))"
  using assms by (simp add: FlowFilter_new_def Let_def split: prod.splits)

lemma sample_constructed:
  "FlowFilter_new sampleEnv rawFilter 2 2 2 (Finite 4) (Finite (1 / 2)) junkDevice
     = (Inr sampleFilter, sampleDevice)"
  by (simp add: sampleFilter_def sampleDevice_def FlowFilter_new_ok)

lemma sampleFilter_eq:
  "sampleFilter = setSmoothIterations 2 (setMaxFlow sampleEnv (Finite 4) (setGamma (Finite (1 / 2))
      (fst (configure (rawFilter\<lparr>f_height := 2, f_width := 2, f_configured := False\<rparr>)
             junkDevice))))"
  by (simp add: sampleFilter_def FlowFilter_new_ok)

lemma sampleDevice_eq:
  "sampleDevice =
     snd (configure (rawFilter\<lparr>f_height := 2, f_width := 2, f_configured := False\<rparr>) junkDevice)"
  by (simp add: sampleDevice_def FlowFilter_new_ok)

lemma sampleFilter_wired: "wired sampleFilter"
  by (simp add: sampleFilter_eq setters_wired configure_wired)

lemma sampleFilter_flags: "f_configured sampleFilter" "f_firstLoad sampleFilter"
  by (simp_all add: sampleFilter_eq setters_flags configure_flags)

lemma sampleFilter_handles:
  "f_inputImage sampleFilter =
     \<lparr>g_height = 2, g_width = 2, g_depth = 1, g_itemSize = 1, g_ptr = 0\<rparr>"
  "im_imageConstant (f_imageModel sampleFilter) =
     \<lparr>g_height = 2, g_width = 2, g_depth = 1, g_itemSize = 4, g_ptr = 1\<rparr>"
  "up_updatedFlow (f_update sampleFilter) =
     \<lparr>g_height = 2, g_width = 2, g_depth = 2, g_itemSize = 4, g_ptr = 4\<rparr>"
  "up_updatedImage (f_update sampleFilter) =
     \<lparr>g_height = 2, g_width = 2, g_depth = 1, g_itemSize = 4, g_ptr = 5\<rparr>"
  "sm_smoothedFlow (f_smoother sampleFilter) =
     \<lparr>g_height = 2, g_width = 2, g_depth = 2, g_itemSize = 4, g_ptr = 6\<rparr>"
  by (simp_all add: sampleFilter_eq setter_defs configure_handles rawFilter_def junkDevice_def)

text \<open>
  C5: when the height or the width is not positive, the constructor with parameters
  throws its construction error (for the height first) before anything is allocated or
  configured, and yields no object; when both are positive it returns a configured and
  wired filter of that height and width.
\<close>

theorem FlowFilter_new_validates:
  "(sint h \<le> 0 \<longrightarrow>
      FlowFilter_new E raw h w n v g d = (Inl (ConstructionError Height h), d))
   \<and> (0 < sint h \<and> sint w \<le> 0 \<longrightarrow>
      FlowFilter_new E raw h w n v g d = (Inl (ConstructionError Width w), d))
   \<and> (0 < sint h \<and> 0 < sint w \<longrightarrow>
      (\<exists>f d'. FlowFilter_new E raw h w n v g d = (Inr f, d')
         \<and> f_configured f \<and> height f = h \<and> width f = w \<and> wired f))"
proof (intro conjI impI)
  assume "0 < sint h \<and> 0 < sint w"
  then have *: "0 < sint h" "0 < sint w" by simp_all
  show "\<exists>f d'. FlowFilter_new E raw h w n v g d = (Inr f, d')
         \<and> f_configured f \<and> height f = h \<and> width f = w \<and> wired f"
    unfolding FlowFilter_new_ok [OF *]
    by (simp add: setters_wired setters_flags configure_flags configure_wired height_def width_def)
qed (simp_all add: FlowFilter_new_def)

theorem FlowFilter_new_validates_witness:
  "sint (0 :: cint) \<le> 0
   \<and> fst (FlowFilter_new sampleEnv rawFilter 0 5 1 (Finite 1) (Finite 1) junkDevice)
       = Inl (ConstructionError Height 0)
   \<and> sint (- 1 :: cint) \<le> 0
   \<and> fst (FlowFilter_new sampleEnv rawFilter (- 1) (- 1) 1 (Finite 1) (Finite 1) junkDevice)
       = Inl (ConstructionError Height (- 1))
   \<and> 0 < sint (5 :: cint) \<and> sint (0 :: cint) \<le> 0
   \<and> fst (FlowFilter_new sampleEnv rawFilter 5 0 1 (Finite 1) (Finite 1) junkDevice)
       = Inl (ConstructionError Width 0)
   \<and> 0 < sint (4 :: cint)
   \<and> (\<exists>f. fst (FlowFilter_new sampleEnv rawFilter 4 4 2 (Finite 4) (Finite (1 / 2)) junkDevice)
       = Inr f \<and> height f = 4 \<and> width f = 4)"
  using FlowFilter_new_validates [of 0 sampleEnv rawFilter 5 1 "Finite 1" "Finite 1" junkDevice]
    FlowFilter_new_validates [of "- 1" sampleEnv rawFilter "- 1" 1 "Finite 1" "Finite 1" junkDevice]
    FlowFilter_new_validates [of 5 sampleEnv rawFilter 0 1 "Finite 1" "Finite 1" junkDevice]
    FlowFilter_new_validates [of 4 sampleEnv rawFilter 4 2 "Finite 4" "Finite (1 / 2)" junkDevice]
  by auto

text \<open>
  C10: the default constructor cannot fail. It sets the height and the width to 0 and
  \<open>configured\<close> to false, leaves every other member as its own default constructor
  made it, and leaves the device as it is: nothing is configured, allocated or cleared.
  The constructor with parameters refuses the same height and width.
\<close>

theorem FlowFilter_default_unconfigured:
  "height (fst (FlowFilter_default raw d)) = 0
   \<and> width (fst (FlowFilter_default raw d)) = 0
   \<and> \<not> f_configured (fst (FlowFilter_default raw d))
   \<and> snd (FlowFilter_default raw d) = d
   \<and> fst (FlowFilter_default raw d) = raw\<lparr>f_height := 0, f_width := 0, f_configured := False\<rparr>
   \<and> FlowFilter_new E raw 0 0 n v g d = (Inl (ConstructionError Height 0), d)"
  by (simp add: FlowFilter_default_def FlowFilter_new_def height_def width_def)

lemma setters_effect:
  "getGamma (setGamma a f) = a"
  "getMaxFlow (setMaxFlow E b f) = b"
  "getSmoothIterations (setSmoothIterations c f) = c"
  "getPropagationIterations (setMaxFlow E b f) = int_of_float (intOutOfRange E) (ceilf b)"
  by (simp_all add: setter_defs accessor_defs)

lemma setters_pass:
  "getGamma (setMaxFlow E b f) = getGamma f"
  "getGamma (setSmoothIterations c f) = getGamma f"
  "getMaxFlow (setSmoothIterations c f) = getMaxFlow f"
  "getPropagationIterations (setSmoothIterations c f) = getPropagationIterations f"
  by (simp_all add: setter_defs accessor_defs)

lemma FlowFilter_new_getters:
  assumes "0 < sint h" and "0 < sint w"
  shows "\<exists>f d'. FlowFilter_new E raw h w n v g d = (Inr f, d')
     \<and> getGamma f = g \<and> getMaxFlow f = v \<and> getSmoothIterations f = n
     \<and> getPropagationIterations f = int_of_float (intOutOfRange E) (ceilf v)
     \<and> f_configured f \<and> wired f"
  unfolding FlowFilter_new_ok [OF assms]
  by (simp add: setters_effect setters_pass setters_wired setters_flags configure_flags
      configure_wired)

text \<open>
  C8: for a positive height and width the constructor with parameters returns the
  configured object after \<open>setGamma\<close>, then \<open>setMaxFlow\<close>, then \<open>setSmoothIterations\<close>,
  so the filter it returns is configured and wired and its getters return the gamma, the
  maximum flow and the smooth iteration count the constructor was given, not the
  provisional values of \<open>configure\<close>. Each setter stores its value, each of the three
  setters applied twice with one value is the setter applied once, and the three
  setters applied in any of the six orders give the same object.
\<close>

theorem constructor_applies_setters:
  assumes "0 < sint h" and "0 < sint w"
  shows "FlowFilter_new E raw h w n v g d =
     (Inr (setSmoothIterations n (setMaxFlow E v (setGamma g
            (fst (configure (raw\<lparr>f_height := h, f_width := w, f_configured := False\<rparr>) d))))),
      snd (configure (raw\<lparr>f_height := h, f_width := w, f_configured := False\<rparr>) d))
   \<and> (\<exists>f d'. FlowFilter_new E raw h w n v g d = (Inr f, d')
         \<and> getGamma f = g \<and> getMaxFlow f = v \<and> getSmoothIterations f = n
         \<and> getPropagationIterations f = int_of_float (intOutOfRange E) (ceilf v)
         \<and> f_configured f \<and> wired f)
   \<and> getGamma (setGamma a f) = a
   \<and> getMaxFlow (setMaxFlow E b f) = b
   \<and> getSmoothIterations (setSmoothIterations c f) = c
   \<and> setGamma a (setGamma a f) = setGamma a f
   \<and> setMaxFlow E b (setMaxFlow E b f) = setMaxFlow E b f
   \<and> setSmoothIterations c (setSmoothIterations c f) = setSmoothIterations c f
   \<and> setSmoothIterations c (setGamma a (setMaxFlow E b f))
       = setSmoothIterations c (setMaxFlow E b (setGamma a f))
   \<and> setMaxFlow E b (setSmoothIterations c (setGamma a f))
       = setSmoothIterations c (setMaxFlow E b (setGamma a f))
   \<and> setMaxFlow E b (setGamma a (setSmoothIterations c f))
       = setSmoothIterations c (setMaxFlow E b (setGamma a f))
   \<and> setGamma a (setSmoothIterations c (setMaxFlow E b f))
       = setSmoothIterations c (setMaxFlow E b (setGamma a f))
   \<and> setGamma a (setMaxFlow E b (setSmoothIterations c f))
       = setSmoothIterations c (setMaxFlow E b (setGamma a f))"
proof -
  note ok = FlowFilter_new_ok [OF assms, of E raw n v g d]
  note gt = FlowFilter_new_getters [OF assms, of E raw n v g d]
  have rest: "getGamma (setGamma a f) = a
   \<and> getMaxFlow (setMaxFlow E b f) = b
   \<and> getSmoothIterations (setSmoothIterations c f) = c
   \<and> setGamma a (setGamma a f) = setGamma a f
   \<and> setMaxFlow E b (setMaxFlow E b f) = setMaxFlow E b f
   \<and> setSmoothIterations c (setSmoothIterations c f) = setSmoothIterations c f
   \<and> setSmoothIterations c (setGamma a (setMaxFlow E b f))
       = setSmoothIterations c (setMaxFlow E b (setGamma a f))
   \<and> setMaxFlow E b (setSmoothIterations c (setGamma a f))
       = setSmoothIterations c (setMaxFlow E b (setGamma a f))
   \<and> setMaxFlow E b (setGamma a (setSmoothIterations c f))
       = setSmoothIterations c (setMaxFlow E b (setGamma a f))
   \<and> setGamma a (setSmoothIterations c (setMaxFlow E b f))
       = setSmoothIterations c (setMaxFlow E b (setGamma a f))
   \<and> setGamma a (setMaxFlow E b (setSmoothIterations c f))
       = setSmoothIterations c (setMaxFlow E b (setGamma a f))"
    by (simp add: setters_effect setters_idempotent setters_commute)
  from ok gt rest show ?thesis by (intro conjI) blast+
qed

lemma four_is_int: "int_of_float (intOutOfRange sampleEnv) (ceilf (Finite 4)) = 4"
  by code_simp

theorem constructor_applies_setters_witness:
  "0 < sint (4 :: cint)
   \<and> (\<exists>f. fst (FlowFilter_new sampleEnv rawFilter 4 4 2 (Finite 4) (Finite (1 / 2)) junkDevice)
            = Inr f
          \<and> getGamma f = Finite (1 / 2) \<and> getMaxFlow f = Finite 4
          \<and> getSmoothIterations f = 2 \<and> getPropagationIterations f = 4)
   \<and> (\<exists>f. fst (FlowFilter_new sampleEnv rawFilter 4 4 7 (Finite 4) (Finite 3) junkDevice)
            = Inr f
          \<and> getGamma f = Finite 3 \<and> getSmoothIterations f = 7)"
proof -
  have p: "0 < sint (4 :: cint)" by simp
  note t = constructor_applies_setters [OF p p, of sampleEnv rawFilter 2 "Finite 4"
      "Finite (1 / 2)" junkDevice]
  note u = constructor_applies_setters [OF p p, of sampleEnv rawFilter 7 "Finite 4"
      "Finite 3" junkDevice]
  from t obtain f d' where
    "FlowFilter_new sampleEnv rawFilter 4 4 2 (Finite 4) (Finite (1 / 2)) junkDevice = (Inr f, d')"
    "getGamma f = Finite (1 / 2)" "getMaxFlow f = Finite 4" "getSmoothIterations f = 2"
    "getPropagationIterations f = int_of_float (intOutOfRange sampleEnv) (ceilf (Finite 4))"
    by blast
  then have a: "\<exists>f. fst (FlowFilter_new sampleEnv rawFilter 4 4 2 (Finite 4) (Finite (1 / 2))
            junkDevice) = Inr f
          \<and> getGamma f = Finite (1 / 2) \<and> getMaxFlow f = Finite 4
          \<and> getSmoothIterations f = 2 \<and> getPropagationIterations f = 4"
    by (simp add: four_is_int)
  from u obtain f2 d2 where
    "FlowFilter_new sampleEnv rawFilter 4 4 7 (Finite 4) (Finite 3) junkDevice = (Inr f2, d2)"
    "getGamma f2 = Finite 3" "getSmoothIterations f2 = 7"
    by blast
  then have b: "\<exists>f. fst (FlowFilter_new sampleEnv rawFilter 4 4 7 (Finite 4) (Finite 3) junkDevice)
            = Inr f \<and> getGamma f = Finite 3 \<and> getSmoothIterations f = 7"
    by simp
  from p a b show ?thesis by blast
qed

section \<open>One cycle of the pipeline\<close>

lemma compute_object: "fst (compute E f d) = f"
  by (simp add: compute_def Let_def)

lemma compute_calls:
  "calls (snd (compute E f d)) =
     calls d @ [StartTiming, StageCompute ImageModelStage, StageCompute FlowPropagatorStage,
                StageCompute FlowUpdateStage, StageCompute FlowSmootherStage, StopTiming]"
  by (simp add: compute_defs buffer_defs Let_def split_def)

lemma compute_brk: "brk (snd (compute E f d)) = brk d"
  by (simp add: compute_defs buffer_defs Let_def split_def)

lemma compute_mem_frame:
  assumes "a \<notin> g_ptr ` set (tl (buffers f))"
  shows "mem (snd (compute E f d)) a = mem d a"
  using assms by (simp add: compute_defs buffer_defs Let_def split_def buffers_def)

lemma compute_dataflow:
  assumes "wired f"
  shows "(let (c, g) = imageModelKernel E (readBuf (f_inputImage f) d);
          p = propagatorKernel E (getPropagationIterations f)
                (readBuf (sm_smoothedFlow (f_smoother f)) d);
          (uf, ui) = updateKernel E (getGamma f) (getMaxFlow f) p c g
                       (readBuf (up_updatedImage (f_update f)) d);
          s = smootherKernel E (getSmoothIterations f) uf;
          d' = snd (compute E f d)
      in readBuf (f_inputImage f) d' = readBuf (f_inputImage f) d
         \<and> readBuf (im_imageConstant (f_imageModel f)) d' = c
         \<and> readBuf (im_imageGradient (f_imageModel f)) d' = g
         \<and> readBuf (pr_propagatedFlow (f_propagator f)) d' = p
         \<and> readBuf (up_updatedFlow (f_update f)) d' = uf
         \<and> readBuf (up_updatedImage (f_update f)) d' = ui
         \<and> readBuf (sm_smoothedFlow (f_smoother f)) d' = s)"
  using wiredD [OF assms]
  by (auto simp: compute_defs buffer_defs Let_def split_def buffers_def accessor_defs)

text \<open>
  C1: on a configured, wired filter \<open>compute\<close> makes exactly the calls start of timing,
  image model, propagator, update, smoother, stop of timing, in this order. The object
  is unchanged, nothing is allocated, and device memory changes only in the six buffers
  the stages produce. Each stage reads what its predecessor wrote in this cycle: the
  propagator the smoothed flow of the previous cycle, the update the propagated flow,
  the new image constant and gradient and the previous updated image, the smoother the
  updated flow.
\<close>

theorem compute_order:
  assumes "f_configured f" and "wired f"
  shows "fst (compute E f d) = f
   \<and> calls (snd (compute E f d)) =
       calls d @ [StartTiming, StageCompute ImageModelStage, StageCompute FlowPropagatorStage,
                  StageCompute FlowUpdateStage, StageCompute FlowSmootherStage, StopTiming]
   \<and> brk (snd (compute E f d)) = brk d
   \<and> (\<forall>a. a \<notin> g_ptr ` set (tl (buffers f)) \<longrightarrow> mem (snd (compute E f d)) a = mem d a)
   \<and> (let (c, g) = imageModelKernel E (readBuf (f_inputImage f) d);
          p = propagatorKernel E (getPropagationIterations f)
                (readBuf (sm_smoothedFlow (f_smoother f)) d);
          (uf, ui) = updateKernel E (getGamma f) (getMaxFlow f) p c g
                       (readBuf (up_updatedImage (f_update f)) d);
          s = smootherKernel E (getSmoothIterations f) uf;
          d' = snd (compute E f d)
      in readBuf (f_inputImage f) d' = readBuf (f_inputImage f) d
         \<and> readBuf (im_imageConstant (f_imageModel f)) d' = c
         \<and> readBuf (im_imageGradient (f_imageModel f)) d' = g
         \<and> readBuf (pr_propagatedFlow (f_propagator f)) d' = p
         \<and> readBuf (up_updatedFlow (f_update f)) d' = uf
         \<and> readBuf (up_updatedImage (f_update f)) d' = ui
         \<and> readBuf (sm_smoothedFlow (f_smoother f)) d' = s)"
  using compute_object [of E f d] compute_calls [of E f d] compute_brk [of E f d]
    compute_mem_frame [of _ f E d] compute_dataflow [OF assms(2), of E d]
  by blast

theorem compute_order_witness:
  "f_configured sampleFilter \<and> wired sampleFilter
   \<and> fst (compute sampleEnv sampleFilter sampleDevice) = sampleFilter
   \<and> calls (snd (compute sampleEnv sampleFilter sampleDevice)) =
       calls sampleDevice @ [StartTiming, StageCompute ImageModelStage,
         StageCompute FlowPropagatorStage, StageCompute FlowUpdateStage,
         StageCompute FlowSmootherStage, StopTiming]"
  using compute_order [OF sampleFilter_flags(1) sampleFilter_wired, of sampleEnv sampleDevice]
    sampleFilter_flags(1) sampleFilter_wired
  by blast

section \<open>The two flow accessors\<close>

text \<open>
  C7: \<open>getFlow\<close> returns the handle of the update stage's updated flow, \<open>downloadFlow\<close>
  downloads the smoother stage's smoothed flow, and on a wired filter the two are
  different allocations.
\<close>

theorem getFlow_vs_downloadFlow:
  "getFlow f = up_updatedFlow (f_update f)
   \<and> downloadFlow f flow d = download (sm_smoothedFlow (f_smoother f)) flow d
   \<and> (compareShape (sm_smoothedFlow (f_smoother f)) flow \<longrightarrow>
        downloadFlow f flow d
          = Inr (flow\<lparr>i_data := mem d (g_ptr (sm_smoothedFlow (f_smoother f)))\<rparr>))
   \<and> (wired f \<longrightarrow> g_ptr (getFlow f) \<noteq> g_ptr (sm_smoothedFlow (f_smoother f)))"
  by (simp add: getFlow_def downloadFlow_def download_def stage_getter_defs readBuf_def
      wired_def buffers_def)

theorem getFlow_vs_downloadFlow_witness:
  "wired sampleFilter
   \<and> compareShape (sm_smoothedFlow (f_smoother sampleFilter)) (hostImage 2 2 2 4 [])
   \<and> g_ptr (getFlow sampleFilter) = 4
   \<and> g_ptr (sm_smoothedFlow (f_smoother sampleFilter)) = 6
   \<and> g_ptr (getFlow sampleFilter) \<noteq> g_ptr (sm_smoothedFlow (f_smoother sampleFilter))
   \<and> downloadFlow sampleFilter (hostImage 2 2 2 4 []) sampleDevice
       = Inr (hostImage 2 2 2 4 (mem sampleDevice 6))"
proof -
  let ?flow = "hostImage 2 2 2 4 []"
  have s: "compareShape (sm_smoothedFlow (f_smoother sampleFilter)) ?flow"
    by (simp add: sampleFilter_handles compareShape_def hostImage_def)
  have p: "g_ptr (getFlow sampleFilter) = 4" "g_ptr (sm_smoothedFlow (f_smoother sampleFilter)) = 6"
    by (simp_all add: sampleFilter_handles getFlow_def getUpdatedFlow_def)
  have r: "?flow\<lparr>i_data := mem sampleDevice (g_ptr (sm_smoothedFlow (f_smoother sampleFilter)))\<rparr>
             = hostImage 2 2 2 4 (mem sampleDevice 6)"
    by (simp add: p hostImage_def)
  note t = getFlow_vs_downloadFlow [of sampleFilter ?flow sampleDevice]
  from t s have "downloadFlow sampleFilter ?flow sampleDevice
      = Inr (?flow\<lparr>i_data := mem sampleDevice (g_ptr (sm_smoothedFlow (f_smoother sampleFilter)))\<rparr>)"
    by blast
  then have dl: "downloadFlow sampleFilter ?flow sampleDevice
      = Inr (hostImage 2 2 2 4 (mem sampleDevice 6))"
    unfolding r .
  from t sampleFilter_wired
  have ne: "g_ptr (getFlow sampleFilter) \<noteq> g_ptr (sm_smoothedFlow (f_smoother sampleFilter))"
    by blast
  from sampleFilter_wired s p ne dl show ?thesis by blast
qed

section \<open>Loading an image\<close>

text \<open>
  C6: on a wired filter, a host image whose height or width differs from the filter's
  makes \<open>loadImage\<close> throw the shape mismatch, with the object and the device as they
  were: nothing is uploaded, the image model is not run, nothing is copied and
  \<open>firstLoad\<close> keeps its value.
\<close>

theorem loadImage_shape_mismatch:
  assumes "wired f" and "i_height img \<noteq> f_height f \<or> i_width img \<noteq> f_width f"
  shows "loadImage E img f d = (Some ShapeMismatch, f, d)"
  using assms wiredD(8,9) [OF assms(1)]
  by (auto simp: loadImage_def upload_def compareShape_def)

theorem loadImage_shape_mismatch_witness:
  "wired sampleFilter
   \<and> i_height (hostImage 3 2 1 1 [1, 2, 3, 4, 5, 6]) = 3
   \<and> f_height sampleFilter = 2
   \<and> f_firstLoad sampleFilter
   \<and> loadImage sampleEnv (hostImage 3 2 1 1 [1, 2, 3, 4, 5, 6]) sampleFilter sampleDevice
       = (Some ShapeMismatch, sampleFilter, sampleDevice)"
proof -
  let ?img = "hostImage 3 2 1 1 [1, 2, 3, 4, 5, 6]"
  have a: "i_height ?img = 3" and b: "f_height sampleFilter = 2"
    by (simp_all add: hostImage_def sampleFilter_eq setters_flags configure_flags)
  have h: "i_height ?img \<noteq> f_height sampleFilter \<or> i_width ?img \<noteq> f_width sampleFilter"
    by (simp add: a b)
  from loadImage_shape_mismatch [OF sampleFilter_wired h, of sampleEnv sampleDevice]
    sampleFilter_wired a b sampleFilter_flags(2)
  show ?thesis by blast
qed

lemma loadImage_first:
  assumes "wired f" and "compareShape (f_inputImage f) img" and "f_firstLoad f"
  shows "\<exists>d'. loadImage E img f d = (None, f\<lparr>f_firstLoad := False\<rparr>, d')
     \<and> calls d' = calls d @
          [Upload (g_ptr (f_inputImage f)),
           Print ''FlowFilter::loadImage(): fisrt load'',
           StageCompute ImageModelStage,
           CopyFrom (g_ptr (up_updatedImage (f_update f)))
                    (g_ptr (im_imageConstant (f_imageModel f)))]
     \<and> readBuf (f_inputImage f) d' = i_data img
     \<and> readBuf (im_imageConstant (f_imageModel f)) d' = fst (imageModelKernel E (i_data img))
     \<and> readBuf (up_updatedImage (f_update f)) d' = fst (imageModelKernel E (i_data img))"
  using assms(2,3) wiredD [OF assms(1)]
  by (auto simp: loadImage_def upload_def ImageModel_compute_def buffer_defs stage_getter_defs
        Let_def split_def buffers_def)

lemma loadImage_later:
  assumes "wired f" and "compareShape (f_inputImage f) img" and "\<not> f_firstLoad f"
  shows "\<exists>d'. loadImage E img f d = (None, f, d')
     \<and> calls d' = calls d @ [Upload (g_ptr (f_inputImage f))]
     \<and> readBuf (f_inputImage f) d' = i_data img
     \<and> readBuf (up_updatedImage (f_update f)) d' = readBuf (up_updatedImage (f_update f)) d"
  using assms(2,3) wiredD [OF assms(1)]
  by (auto simp: loadImage_def upload_def buffer_defs buffers_def)

lemma seedings_logCall:
  "seedings (logCall c d) = seedings d + (if isCopyFrom c then 1 else 0)"
  by (simp add: seedings_def logCall_def)

lemma seedings_writeBuf: "seedings (writeBuf g b d) = seedings d"
  by (simp add: seedings_def writeBuf_def)

lemma seedings_compute: "seedings (snd (compute E f d)) = seedings d"
  by (simp add: compute_defs Let_def split_def seedings_logCall seedings_writeBuf)

lemma loadImage_balance:
  assumes "loadImage E img f d = (r, f', d')"
  shows "seedings d' + (if f_firstLoad f' then 1 else 0)
           = seedings d + (if f_firstLoad f then 1 else 0)"
  using assms
  by (auto simp: loadImage_def upload_def ImageModel_compute_def copyFrom_def Let_def split_def
        seedings_logCall seedings_writeBuf split: if_splits)

lemma step_balance:
  assumes "step E x f d = (r, f', d')"
  shows "seedings d' + (if f_firstLoad f' then 1 else 0)
           = seedings d + (if f_firstLoad f then 1 else 0)"
proof (cases x)
  case (LoadImage img)
  with assms show ?thesis by (simp add: loadImage_balance)
next
  case Compute
  with assms have "f' = f" "d' = snd (compute E f d)"
    by (auto simp: compute_def Let_def)
  then show ?thesis by (simp add: seedings_compute)
next
  case (DownloadFlow flow)
  with assms show ?thesis by (auto split: sum.splits)
next
  case (DownloadImage img)
  with assms show ?thesis by (auto split: sum.splits)
next
  case (SetGamma g)
  with assms show ?thesis by (auto simp: setters_flags)
next
  case (SetMaxFlow v)
  with assms show ?thesis by (auto simp: setters_flags)
next
  case (SetSmoothIterations n)
  with assms show ?thesis by (auto simp: setters_flags)
qed

lemma run_balance:
  "run E xs f d = (rs, f', d') \<Longrightarrow>
   seedings d' + (if f_firstLoad f' then 1 else 0)
     = seedings d + (if f_firstLoad f then 1 else 0)"
proof (induction xs arbitrary: f d rs)
  case Nil
  then show ?case by simp
next
  case (Cons x xs)
  obtain r1 f1 d1 where s: "step E x f d = (r1, f1, d1)"
    by (cases "step E x f d") auto
  obtain rs1 where "run E xs f1 d1 = (rs1, f', d')"
    using Cons.prems s by (auto split: prod.splits)
  from Cons.IH [OF this] step_balance [OF s] show ?case by simp
qed

text \<open>
  C3: on a wired filter and a host image of the input image's shape, a \<open>loadImage\<close>
  with \<open>firstLoad\<close> true uploads the image, prints its message, runs the image model,
  copies the image constant it has just computed into the updated image and clears
  \<open>firstLoad\<close>; a \<open>loadImage\<close> with \<open>firstLoad\<close> false uploads the image and nothing
  else, and the updated image keeps its bytes. Over any sequence of calls on the filter
  the number of such copies plus one while \<open>firstLoad\<close> is true stays the same, so a
  filter is seeded at most once.
\<close>

theorem loadImage_seeds_once:
  assumes "wired f" and "compareShape (f_inputImage f) img"
  shows "(f_firstLoad f \<longrightarrow>
      (\<exists>d'. loadImage E img f d = (None, f\<lparr>f_firstLoad := False\<rparr>, d')
         \<and> calls d' = calls d @
              [Upload (g_ptr (f_inputImage f)),
               Print ''FlowFilter::loadImage(): fisrt load'',
               StageCompute ImageModelStage,
               CopyFrom (g_ptr (up_updatedImage (f_update f)))
                        (g_ptr (im_imageConstant (f_imageModel f)))]
         \<and> readBuf (f_inputImage f) d' = i_data img
         \<and> readBuf (im_imageConstant (f_imageModel f)) d' = fst (imageModelKernel E (i_data img))
         \<and> readBuf (up_updatedImage (f_update f)) d' = fst (imageModelKernel E (i_data img))))
   \<and> (\<not> f_firstLoad f \<longrightarrow>
      (\<exists>d'. loadImage E img f d = (None, f, d')
         \<and> calls d' = calls d @ [Upload (g_ptr (f_inputImage f))]
         \<and> readBuf (f_inputImage f) d' = i_data img
         \<and> readBuf (up_updatedImage (f_update f)) d'
             = readBuf (up_updatedImage (f_update f)) d))
   \<and> (\<forall>xs rs f' d'. run E xs f d = (rs, f', d') \<longrightarrow>
         seedings d' + (if f_firstLoad f' then 1 else 0)
           = seedings d + (if f_firstLoad f then 1 else 0))"
  using loadImage_first [OF assms, of E d] loadImage_later [OF assms, of E d]
    run_balance [of E _ f d]
  by blast

theorem loadImage_seeds_once_witness:
  "wired sampleFilter
   \<and> compareShape (f_inputImage sampleFilter) (hostImage 2 2 1 1 [10, 20, 30, 40])
   \<and> f_firstLoad sampleFilter
   \<and> (\<exists>d1 d2.
        loadImage sampleEnv (hostImage 2 2 1 1 [10, 20, 30, 40]) sampleFilter sampleDevice
          = (None, sampleFilter\<lparr>f_firstLoad := False\<rparr>, d1)
        \<and> readBuf (up_updatedImage (f_update sampleFilter)) d1 = [10, 20, 30, 40]
        \<and> loadImage sampleEnv (hostImage 2 2 1 1 [1, 2, 3, 4])
              (sampleFilter\<lparr>f_firstLoad := False\<rparr>) d1
          = (None, sampleFilter\<lparr>f_firstLoad := False\<rparr>, d2)
        \<and> readBuf (f_inputImage sampleFilter) d2 = [1, 2, 3, 4]
        \<and> readBuf (up_updatedImage (f_update sampleFilter)) d2 = [10, 20, 30, 40])"
proof -
  let ?a = "hostImage 2 2 1 1 [10, 20, 30, 40]" and ?b = "hostImage 2 2 1 1 [1, 2, 3, 4]"
  let ?g = "sampleFilter\<lparr>f_firstLoad := False\<rparr>"
  have sa: "compareShape (f_inputImage sampleFilter) ?a"
    and sb: "compareShape (f_inputImage ?g) ?b"
    by (simp_all add: sampleFilter_handles compareShape_def hostImage_def)
  have wg: "wired ?g"
    by (simp add: wired_firstLoad sampleFilter_wired)
  have k: "fst (imageModelKernel sampleEnv (i_data ?a)) = [10, 20, 30, 40]"
    by (simp add: sampleEnv_def hostImage_def)
  from loadImage_seeds_once [OF sampleFilter_wired sa, of sampleEnv sampleDevice]
    sampleFilter_flags(2)
  obtain d1 where
    l1: "loadImage sampleEnv ?a sampleFilter sampleDevice = (None, ?g, d1)"
    and u1: "readBuf (up_updatedImage (f_update sampleFilter)) d1
               = fst (imageModelKernel sampleEnv (i_data ?a))"
    by blast
  have ng: "\<not> f_firstLoad ?g" by simp
  from loadImage_seeds_once [OF wg sb, of sampleEnv d1] ng
  obtain d2 where
    l2: "loadImage sampleEnv ?b ?g d1 = (None, ?g, d2)"
    and i2: "readBuf (f_inputImage ?g) d2 = i_data ?b"
    and u2: "readBuf (up_updatedImage (f_update ?g)) d2
               = readBuf (up_updatedImage (f_update ?g)) d1"
    by blast
  have i2': "readBuf (f_inputImage sampleFilter) d2 = [1, 2, 3, 4]"
    using i2 by (simp add: hostImage_def)
  have u2': "readBuf (up_updatedImage (f_update sampleFilter)) d2 = [10, 20, 30, 40]"
    using u2 u1 k by simp
  from sampleFilter_wired sa sampleFilter_flags(2) l1 u1 [unfolded k] l2 i2' u2'
  show ?thesis by blast
qed

section \<open>The state configure leaves\<close>

text \<open>
  No operation of the filter changes a buffer handle, the wiring or \<open>configured\<close>, and
  every operation other than \<open>compute\<close> leaves the three flow buffers as they are.
\<close>

lemma loadImage_object:
  "fst (snd (loadImage E img f d)) = f \<or> fst (snd (loadImage E img f d)) = f\<lparr>f_firstLoad := False\<rparr>"
  by (simp add: loadImage_def upload_def Let_def)

lemma buffers_firstLoad: "buffers (f\<lparr>f_firstLoad := b\<rparr>) = buffers f"
  by (simp add: buffers_def)

lemma setters_buffers:
  "buffers (setGamma a f) = buffers f"
  "buffers (setMaxFlow E b f) = buffers f"
  "buffers (setSmoothIterations c f) = buffers f"
  by (simp_all add: setter_defs buffers_def)

lemma step_buffers: "buffers (fst (snd (step E x f d))) = buffers f"
proof (cases x)
  case (LoadImage img)
  then show ?thesis
    using loadImage_object [of E img f d] by (auto simp: buffers_firstLoad)
qed (auto simp: compute_object setters_buffers split: sum.splits)

lemma step_wired: "wired (fst (snd (step E x f d))) = wired f"
proof (cases x)
  case (LoadImage img)
  then show ?thesis
    using loadImage_object [of E img f d] by (auto simp: wired_firstLoad)
qed (auto simp: compute_object setters_wired split: sum.splits)

lemma step_configured: "f_configured (fst (snd (step E x f d))) = f_configured f"
proof (cases x)
  case (LoadImage img)
  then show ?thesis
    using loadImage_object [of E img f d] by auto
qed (auto simp: compute_object setters_flags split: sum.splits)

lemma loadImage_flow_frame:
  assumes "wired f"
    and "a \<in> {g_ptr (pr_propagatedFlow (f_propagator f)), g_ptr (up_updatedFlow (f_update f)),
              g_ptr (sm_smoothedFlow (f_smoother f))}"
  shows "mem (snd (snd (loadImage E img f d))) a = mem d a"
  using assms(2) wiredD [OF assms(1)]
  by (auto simp: loadImage_def upload_def ImageModel_compute_def buffer_defs stage_getter_defs
        Let_def split_def buffers_def)

lemma step_flow_frame:
  assumes "wired f" and "x \<noteq> Compute"
    and "a \<in> {g_ptr (pr_propagatedFlow (f_propagator f)), g_ptr (up_updatedFlow (f_update f)),
              g_ptr (sm_smoothedFlow (f_smoother f))}"
  shows "mem (snd (snd (step E x f d))) a = mem d a"
proof (cases x)
  case (LoadImage img)
  then show ?thesis using loadImage_flow_frame [OF assms(1,3)] by simp
qed (use assms(2) in \<open>auto split: sum.splits\<close>)

lemma flows_of_buffers:
  assumes "buffers f' = buffers f"
  shows "pr_propagatedFlow (f_propagator f') = pr_propagatedFlow (f_propagator f)"
    and "up_updatedFlow (f_update f') = up_updatedFlow (f_update f)"
    and "sm_smoothedFlow (f_smoother f') = sm_smoothedFlow (f_smoother f)"
  using assms by (simp_all add: buffers_def)

lemma run_flow_frame:
  assumes "wired f" and "Compute \<notin> set xs" and "run E xs f d = (rs, f', d')"
    and "a \<in> {g_ptr (pr_propagatedFlow (f_propagator f)), g_ptr (up_updatedFlow (f_update f)),
              g_ptr (sm_smoothedFlow (f_smoother f))}"
  shows "mem d' a = mem d a \<and> buffers f' = buffers f \<and> f_configured f' = f_configured f"
  using assms
proof (induction xs arbitrary: f d rs)
  case Nil
  then show ?case by simp
next
  case (Cons x xs)
  obtain r1 f1 d1 where s: "step E x f d = (r1, f1, d1)"
    by (cases "step E x f d") auto
  obtain rs1 where r: "run E xs f1 d1 = (rs1, f', d')"
    using Cons.prems(3) s by (auto split: prod.splits)
  have x: "x \<noteq> Compute" and xs: "Compute \<notin> set xs"
    using Cons.prems(2) by auto
  have b1: "buffers f1 = buffers f" using step_buffers [of E x f d] s by simp
  have w1: "wired f1" using step_wired [of E x f d] s Cons.prems(1) by simp
  have c1: "f_configured f1 = f_configured f" using step_configured [of E x f d] s by simp
  have m1: "mem d1 a = mem d a"
    using step_flow_frame [OF Cons.prems(1) x Cons.prems(4), of E d] s by simp
  have a1: "a \<in> {g_ptr (pr_propagatedFlow (f_propagator f1)), g_ptr (up_updatedFlow (f_update f1)),
              g_ptr (sm_smoothedFlow (f_smoother f1))}"
    using Cons.prems(4) flows_of_buffers [OF b1] by simp
  from Cons.IH [OF w1 xs r a1] b1 c1 m1 show ?case by simp
qed

text \<open>
  C2: in the state \<open>configure\<close> returns, the propagated flow, the updated flow, the
  updated image and the smoothed flow are zero-filled, \<open>configured\<close> and \<open>firstLoad\<close>
  are true, and downloading the smoothed flow into a host buffer of its shape yields
  only zero bytes, as many as the buffer has. Whatever is called on the filter from
  then on, as long as \<open>compute\<close> is not, the filter stays configured and the three flow
  buffers stay zero-filled.
\<close>

theorem configure_clears:
  assumes "configure f d = (f', d')"
  shows "readBuf (pr_propagatedFlow (f_propagator f')) d'
       = replicate (byteSize (pr_propagatedFlow (f_propagator f'))) 0
   \<and> readBuf (up_updatedFlow (f_update f')) d'
       = replicate (byteSize (up_updatedFlow (f_update f'))) 0
   \<and> readBuf (up_updatedImage (f_update f')) d'
       = replicate (byteSize (up_updatedImage (f_update f'))) 0
   \<and> readBuf (sm_smoothedFlow (f_smoother f')) d'
       = replicate (byteSize (sm_smoothedFlow (f_smoother f'))) 0
   \<and> f_configured f' \<and> f_firstLoad f'
   \<and> byteSize (sm_smoothedFlow (f_smoother f'))
       = nat (sint (f_height f)) * nat (sint (f_width f)) * 2 * 4
   \<and> (compareShape (sm_smoothedFlow (f_smoother f')) flow \<longrightarrow>
        (\<exists>out. downloadFlow f' flow d' = Inr out
           \<and> i_data out = replicate (byteSize (sm_smoothedFlow (f_smoother f'))) 0
           \<and> (\<forall>b \<in> set (i_data out). b = 0)))
   \<and> (\<forall>xs rs f2 d2. Compute \<notin> set xs \<and> run E xs f' d' = (rs, f2, d2) \<longrightarrow>
        f_configured f2
        \<and> sm_smoothedFlow (f_smoother f2) = sm_smoothedFlow (f_smoother f')
        \<and> readBuf (pr_propagatedFlow (f_propagator f2)) d2
            = replicate (byteSize (pr_propagatedFlow (f_propagator f2))) 0
        \<and> readBuf (up_updatedFlow (f_update f2)) d2
            = replicate (byteSize (up_updatedFlow (f_update f2))) 0
        \<and> readBuf (sm_smoothedFlow (f_smoother f2)) d2
            = replicate (byteSize (sm_smoothedFlow (f_smoother f2))) 0)"
proof -
  have f': "f' = fst (configure f d)" and d': "d' = snd (configure f d)"
    using assms by simp_all
  have w: "wired f'" and c: "f_configured f'" and l: "f_firstLoad f'"
    unfolding f' by (simp_all add: configure_wired configure_flags)
  have zp: "readBuf (pr_propagatedFlow (f_propagator f')) d'
       = replicate (byteSize (pr_propagatedFlow (f_propagator f'))) 0"
    and zu: "readBuf (up_updatedFlow (f_update f')) d'
       = replicate (byteSize (up_updatedFlow (f_update f'))) 0"
    and zi: "readBuf (up_updatedImage (f_update f')) d'
       = replicate (byteSize (up_updatedImage (f_update f'))) 0"
    and zs: "readBuf (sm_smoothedFlow (f_smoother f')) d'
       = replicate (byteSize (sm_smoothedFlow (f_smoother f'))) 0"
    unfolding f' d' by (rule configure_zero)+
  have dl: "\<exists>out. downloadFlow f' flow d' = Inr out
           \<and> i_data out = replicate (byteSize (sm_smoothedFlow (f_smoother f'))) 0
           \<and> (\<forall>b \<in> set (i_data out). b = 0)"
    if "compareShape (sm_smoothedFlow (f_smoother f')) flow"
    using that zs by (simp add: downloadFlow_def download_def getSmoothedFlow_def)
  have sz: "byteSize (sm_smoothedFlow (f_smoother f'))
       = nat (sint (f_height f)) * nat (sint (f_width f)) * 2 * 4"
    unfolding f' by (simp add: configure_handles byteSize_def)
  have later: "f_configured f2
        \<and> sm_smoothedFlow (f_smoother f2) = sm_smoothedFlow (f_smoother f')
        \<and> readBuf (pr_propagatedFlow (f_propagator f2)) d2
            = replicate (byteSize (pr_propagatedFlow (f_propagator f2))) 0
        \<and> readBuf (up_updatedFlow (f_update f2)) d2
            = replicate (byteSize (up_updatedFlow (f_update f2))) 0
        \<and> readBuf (sm_smoothedFlow (f_smoother f2)) d2
            = replicate (byteSize (sm_smoothedFlow (f_smoother f2))) 0"
    if "Compute \<notin> set xs \<and> run E xs f' d' = (rs, f2, d2)" for xs rs f2 d2
  proof -
    from that have n: "Compute \<notin> set xs" and r: "run E xs f' d' = (rs, f2, d2)" by simp_all
    have p: "mem d2 (g_ptr (pr_propagatedFlow (f_propagator f')))
               = mem d' (g_ptr (pr_propagatedFlow (f_propagator f')))"
      and b: "buffers f2 = buffers f'" and c2: "f_configured f2 = f_configured f'"
      using run_flow_frame [OF w n r, of "g_ptr (pr_propagatedFlow (f_propagator f'))"] by simp_all
    have u: "mem d2 (g_ptr (up_updatedFlow (f_update f')))
               = mem d' (g_ptr (up_updatedFlow (f_update f')))"
      using run_flow_frame [OF w n r, of "g_ptr (up_updatedFlow (f_update f'))"] by simp
    have s: "mem d2 (g_ptr (sm_smoothedFlow (f_smoother f')))
               = mem d' (g_ptr (sm_smoothedFlow (f_smoother f')))"
      using run_flow_frame [OF w n r, of "g_ptr (sm_smoothedFlow (f_smoother f'))"] by simp
    show ?thesis
      using p u s c c2 zp zu zs flows_of_buffers [OF b] by (simp add: readBuf_def)
  qed
  from zp zu zi zs c l sz dl later show ?thesis by blast
qed

theorem configure_clears_witness:
  "readBuf (sm_smoothedFlow (f_smoother sampleFilter)) junkDevice = [255, 7]
   \<and> (\<exists>out. downloadFlow
               (fst (configure (rawFilter\<lparr>f_height := 2, f_width := 2\<rparr>) junkDevice))
               (hostImage 2 2 2 4 [])
               (snd (configure (rawFilter\<lparr>f_height := 2, f_width := 2\<rparr>) junkDevice)) = Inr out
           \<and> i_data out = replicate 32 0)
   \<and> (\<exists>rs f2 d2.
         run sampleEnv [LoadImage (hostImage 2 2 1 1 [10, 20, 30, 40]), SetGamma (Finite 3)]
           (fst (configure (rawFilter\<lparr>f_height := 2, f_width := 2\<rparr>) junkDevice))
           (snd (configure (rawFilter\<lparr>f_height := 2, f_width := 2\<rparr>) junkDevice))
           = (rs, f2, d2)
         \<and> readBuf (sm_smoothedFlow (f_smoother f2)) d2 = replicate 32 0)"
proof -
  let ?F = "rawFilter\<lparr>f_height := 2, f_width := 2\<rparr>"
  let ?xs = "[LoadImage (hostImage 2 2 1 1 [10, 20, 30, 40]), SetGamma (Finite 3)]"
  have c: "configure ?F junkDevice = (fst (configure ?F junkDevice), snd (configure ?F junkDevice))"
    by simp
  have s: "compareShape (sm_smoothedFlow (f_smoother (fst (configure ?F junkDevice))))
             (hostImage 2 2 2 4 [])"
    by (simp add: configure_handles compareShape_def hostImage_def)
  have j: "readBuf (sm_smoothedFlow (f_smoother sampleFilter)) junkDevice = [255, 7]"
    by (simp add: readBuf_def junkDevice_def)
  note t = configure_clears [OF c, of "hostImage 2 2 2 4 []" sampleEnv]
  from t have "byteSize (sm_smoothedFlow (f_smoother (fst (configure ?F junkDevice))))
      = nat (sint (f_height ?F)) * nat (sint (f_width ?F)) * 2 * 4"
    by blast
  then have sz: "byteSize (sm_smoothedFlow (f_smoother (fst (configure ?F junkDevice)))) = 32"
    by simp
  from t s have "\<exists>out. downloadFlow (fst (configure ?F junkDevice)) (hostImage 2 2 2 4 [])
               (snd (configure ?F junkDevice)) = Inr out
           \<and> i_data out = replicate
                 (byteSize (sm_smoothedFlow (f_smoother (fst (configure ?F junkDevice))))) 0"
    by blast
  then have dl: "\<exists>out. downloadFlow (fst (configure ?F junkDevice)) (hostImage 2 2 2 4 [])
               (snd (configure ?F junkDevice)) = Inr out \<and> i_data out = replicate 32 0"
    unfolding sz .
  obtain rs f2 d2 where
    r: "run sampleEnv ?xs (fst (configure ?F junkDevice)) (snd (configure ?F junkDevice))
          = (rs, f2, d2)"
    by (rule prod_cases3)
  have n: "Compute \<notin> set ?xs" by simp
  from t n r have h: "sm_smoothedFlow (f_smoother f2)
        = sm_smoothedFlow (f_smoother (fst (configure ?F junkDevice)))"
    and z: "readBuf (sm_smoothedFlow (f_smoother f2)) d2
        = replicate (byteSize (sm_smoothedFlow (f_smoother f2))) 0"
    by blast+
  have "readBuf (sm_smoothedFlow (f_smoother f2)) d2 = replicate 32 0"
    using z unfolding h sz .
  with r have w: "\<exists>rs f2 d2.
         run sampleEnv ?xs (fst (configure ?F junkDevice)) (snd (configure ?F junkDevice))
           = (rs, f2, d2)
         \<and> readBuf (sm_smoothedFlow (f_smoother f2)) d2 = replicate 32 0"
    by blast
  from j dl w show ?thesis by blast
qed

end
